theory Spec2Isabelle
  imports Main "HOL-Library.AList"
begin

section \<open>The ghostpass core (ghostpass.py) as a shallow embedding\<close>

text \<open>
  The module under study is \<^verbatim>\<open>src/ghostpass/ghostpass.py\<close>: the class \<^verbatim>\<open>Ghostpass\<close>, the
  exception class \<^verbatim>\<open>GhostpassException\<close> and the module-level lock \<^verbatim>\<open>global_mutex\<close>.
  The module is Python 2 (it iterates dictionaries with \<^verbatim>\<open>iteritems\<close>). Python strings
  are \<open>string\<close>; an instance is a record that every method takes and returns; what a
  method raises is a value of the type \<open>failure\<close>, returned as \<open>Inl\<close> together with the
  state the method leaves behind.
\<close>

subsection \<open>Failures\<close>

text \<open>
  \<^item> \<open>SystemExit message status\<close>: the exception that \<^verbatim>\<open>exit(status)\<close> raises, with the
    \<open>message\<close> printed before the call; this is what constructing a
    \<^verbatim>\<open>GhostpassException\<close> does.
  \<^item> \<open>TypeError\<close>, \<open>NameError\<close>, \<open>AttributeError\<close>: the interpreter's own exceptions
    (\<open>NameError\<close> stands for the class and its subclass \<^verbatim>\<open>UnboundLocalError\<close>).
  \<^item> \<open>Foreign label\<close>: an exception raised inside a collaborator the module calls
    (\<^verbatim>\<open>ghostpass.crypto\<close>, \<^verbatim>\<open>hashlib\<close>, the file system).
  \<^item> \<open>Blocked\<close>: \<^verbatim>\<open>global_mutex.acquire()\<close> on a lock that is already held; the call
    does not return.
\<close>

datatype failure =
    SystemExit string nat
  | TypeError
  | NameError
  | AttributeError
  | Foreign string
  | Blocked

text \<open>
  \<^verbatim>\<open>
  class GhostpassException(Exception):
      def __init__(self, message):
          print(color.R + "[!] Error: " + message + color.W)
          exit(1)
  \<close>
  The constructor never returns an exception object: \<^verbatim>\<open>raise GhostpassException(m)\<close>
  ends in \<^verbatim>\<open>exit(1)\<close>, which raises \<^verbatim>\<open>SystemExit(1)\<close>. The colour codes around the printed
  line are left out.
\<close>

definition GhostpassException :: "string \<Rightarrow> failure" where
  "GhostpassException message = SystemExit message 1"

text \<open>
  \<open>exit_called e\<close>: the failure \<open>e\<close> is the \<^verbatim>\<open>SystemExit\<close> that a call of \<^verbatim>\<open>exit\<close> raises.
  It is a request to end the interpreter and no error type of the domain; what becomes
  of it is decided outside the module (uncaught, it ends the process when it leaves the
  main thread and only the thread when it leaves another one).
\<close>

definition exit_called :: "failure \<Rightarrow> bool" where
  "exit_called e = (case e of SystemExit m st \<Rightarrow> True | _ \<Rightarrow> False)"

subsection \<open>Data\<close>

text \<open>
  \<^verbatim>\<open>self.data\<close> is a list of dictionaries \<^verbatim>\<open>{field: (username, password)}\<close>. A
  dictionary is the list of its items in iteration order; its keys are distinct
  (\<open>wf_dict\<close>). \<^verbatim>\<open>f[key] = v\<close> is \<open>AList.update key v f\<close>, and \<^verbatim>\<open>key in f\<close> is
  \<open>dict_contains f key\<close>.
\<close>

type_synonym dict = "(string \<times> (string \<times> string)) list"

definition dict_contains :: "dict \<Rightarrow> string \<Rightarrow> bool" where
  "dict_contains f k = (map_of f k \<noteq> None)"

definition wf_dict :: "dict \<Rightarrow> bool" where
  "wf_dict f = distinct (map fst f)"

definition wf_data :: "dict list \<Rightarrow> bool" where
  "wf_data ds = list_all wf_dict ds"

text \<open>
  \<^verbatim>\<open>crypto.AESHelper\<close> is not part of the module: an instance is the pair of its two
  methods, each of which returns a string or raises.
\<close>

record aeshelper =
  encrypt :: "string \<Rightarrow> failure + string"
  decrypt :: "string \<Rightarrow> failure + string"

text \<open>
  The instance attributes. \<^verbatim>\<open>__init__\<close> sets the first four; \<^verbatim>\<open>aeshelp\<close> and
  \<^verbatim>\<open>model\<close> exist only after \<^verbatim>\<open>init_state\<close> (\<open>None\<close>: the attribute is missing and
  reading it raises \<open>AttributeError\<close>). \<open>'m\<close> is the type of \<^verbatim>\<open>crypto.MarkovHelper\<close>
  objects.
\<close>

record 'm ghostpass =
  uuid :: string
  password :: "string option"
  encrypted :: bool
  data :: "dict list"
  aeshelp :: "aeshelper option"
  model :: "'m option"

text \<open>The program state: the module-level lock (\<open>True\<close> = held) and the instance.\<close>

record 'm world =
  global_mutex :: bool
  self :: "'m ghostpass"

text \<open>
  What the module calls but does not define: \<^verbatim>\<open>hashlib\<close>, \<^verbatim>\<open>ghostpass.crypto\<close>,
  \<^verbatim>\<open>open(...).readlines()\<close> and \<^verbatim>\<open>tabulate.tabulate\<close>. They are parameters of the
  methods that use them.
\<close>

record 'm collaborators =
  sha512_hexdigest :: "string \<Rightarrow> failure + string"
  AESHelper :: "string \<Rightarrow> failure + aeshelper"
  readlines :: "string \<Rightarrow> failure + string list"
  MarkovHelper :: "string list \<Rightarrow> failure + 'm"
  generate_key :: "'m \<Rightarrow> string option \<Rightarrow> failure + 'm"
  init_mc :: "'m \<Rightarrow> failure + 'm"
  encrypt_text :: "'m \<Rightarrow> failure + 'm"
  tabulate :: "string list list \<Rightarrow> string list \<Rightarrow> string"

text \<open>
  \<^verbatim>\<open>__init__\<close>; the class attribute \<^verbatim>\<open>uuid\<close> is drawn at random when the class is
  created and is a parameter here.
\<close>

definition Ghostpass :: "string \<Rightarrow> 'm ghostpass" where
  "Ghostpass class_uuid =
     \<lparr>uuid = class_uuid, password = None, encrypted = False, data = [],
      aeshelp = None, model = None\<rparr>"

subsection \<open>Field lookup\<close>

text \<open>
  \<^verbatim>\<open>
  def _check_field_existence(self, field):
      for f in self.data:
          for k, v in f.iteritems():
              if k == field:
                  return True
      return False
  \<close>
\<close>

fun check_items :: "dict \<Rightarrow> string \<Rightarrow> bool" where
  "check_items [] field = False"
| "check_items ((k, v) # items) field = (if k = field then True else check_items items field)"

fun check_dicts :: "dict list \<Rightarrow> string \<Rightarrow> bool" where
  "check_dicts [] field = False"
| "check_dicts (f # fs) field = (if check_items f field then True else check_dicts fs field)"

definition check_field_existence :: "'m ghostpass \<Rightarrow> string \<Rightarrow> bool" where
  "check_field_existence s field = check_dicts (data s) field"

definition not_found :: "string \<Rightarrow> failure" where
  "not_found field = GhostpassException (''field '' @ field @ '' doesn't exist!'')"

definition already_exists :: "string \<Rightarrow> failure" where
  "already_exists field = GhostpassException (''field '' @ field @ '' already exists!'')"

text \<open>
  \<^verbatim>\<open>
  def view_field(self, field):
      if not self._check_field_existence(field):
          raise GhostpassException("field {} doesn't exist!".format(field))
      entry = []
      for f in self.data:
          for key, value in f.iteritems():
              if key == field:
                  temp = [key, value[0], value[1]]
                  entry.append(temp)
      return tabulate.tabulate(entry, headers=["Field", "Username", "Password"])
  \<close>
\<close>

text \<open>
  The value a view method returns. \<^verbatim>\<open>tabulate.tabulate\<close> returns a string; a tuple of
  strings is the other kind of value that is said of \<^verbatim>\<open>view_field\<close>.
\<close>

datatype pyvalue = Str string | Tuple "string list"

fun view_items :: "dict \<Rightarrow> string \<Rightarrow> string list list \<Rightarrow> string list list" where
  "view_items [] field entry = entry"
| "view_items ((key, val) # items) field entry =
     view_items items field (if key = field then entry @ [[key, fst val, snd val]] else entry)"

fun view_dicts :: "dict list \<Rightarrow> string \<Rightarrow> string list list \<Rightarrow> string list list" where
  "view_dicts [] field entry = entry"
| "view_dicts (f # fs) field entry = view_dicts fs field (view_items f field entry)"

definition headers :: "string list" where
  "headers = [''Field'', ''Username'', ''Password'']"

definition view_field :: "'m collaborators \<Rightarrow> 'm ghostpass \<Rightarrow> string \<Rightarrow> failure + pyvalue" where
  "view_field X s field =
     (if \<not> check_field_existence s field then Inl (not_found field)
      else Inr (Str (tabulate X (view_dicts (data s) field []) headers)))"

text \<open>
  \<^verbatim>\<open>
  def view_all(self):
      table = [[key, value[0], value[1]] for key, value in field.iteritems() for field in self.data]
      return tabulate.tabulate(table, headers=["Field", "Username", "Password"])
  \<close>
  The first \<^verbatim>\<open>for\<close> clause of a comprehension is the outer loop: its iterable
  \<^verbatim>\<open>field.iteritems()\<close> is evaluated before the second clause binds \<^verbatim>\<open>field\<close>.
  \<open>field\<close> below is the binding of that name when the comprehension starts:
  \<^verbatim>\<open>view_all\<close> has no parameter and no earlier assignment of that name, and the module
  has no global of that name.
\<close>

definition view_all :: "'m collaborators \<Rightarrow> 'm ghostpass \<Rightarrow> failure + pyvalue" where
  "view_all X s =
     (let field = (None :: dict option) in
      case field of
        None \<Rightarrow> Inl NameError
      | Some outer \<Rightarrow>
          Inr (Str (tabulate X
                (concat (map (\<lambda>(key, val). map (\<lambda>field. [key, fst val, snd val]) (data s)) outer))
                headers)))"

subsection \<open>Mutations under the lock\<close>

text \<open>
  \<^verbatim>\<open>
  def add_field(self, field, username, password):
      if self._check_field_existence(field):
          raise GhostpassException("field {} already exists!".format(field))
      global_mutex.acquire()
      try:
          self.data.append({field: (username, password) })
      except Exception:
          return 1
      finally:
          global_mutex.release()
  \<close>
  The result is the returned value: \<open>None\<close> for falling off the end, \<open>Some 1\<close> for
  \<^verbatim>\<open>return 1\<close>. Appending to a list raises nothing, so the \<^verbatim>\<open>except\<close> branch is never
  taken.
\<close>

definition add_field ::
  "'m world \<Rightarrow> string \<Rightarrow> string \<Rightarrow> string \<Rightarrow> (failure + int option) \<times> 'm world" where
  "add_field w field username pw =
     (if check_field_existence (self w) field then (Inl (already_exists field), w)
      else if global_mutex w then (Inl Blocked, w)
      else
        let w1 = w\<lparr>global_mutex := True\<rparr>;
            w2 = w1\<lparr>self := (self w1)\<lparr>data := data (self w1) @ [[(field, (username, pw))]]\<rparr>\<rparr>
        in (Inr None, w2\<lparr>global_mutex := False\<rparr>))"

text \<open>
  \<^verbatim>\<open>
  def remove_field(self, field):
      if not self._check_field_existence(field):
          raise GhostpassException("field {} doesn't exist!".format(field))
      global_mutex.acquire()
      try:
          self.data = [f for f in self.data if str(field) not in f]
      except Exception:
          return 1
      finally:
          global_mutex.release()
  \<close>
\<close>

definition remove_field :: "'m world \<Rightarrow> string \<Rightarrow> (failure + int option) \<times> 'm world" where
  "remove_field w field =
     (if \<not> check_field_existence (self w) field then (Inl (not_found field), w)
      else if global_mutex w then (Inl Blocked, w)
      else
        let w1 = w\<lparr>global_mutex := True\<rparr>;
            w2 = w1\<lparr>self := (self w1)\<lparr>data := filter (\<lambda>f. \<not> dict_contains f field) (data (self w1))\<rparr>\<rparr>
        in (Inr None, w2\<lparr>global_mutex := False\<rparr>))"

text \<open>
  \<^verbatim>\<open>
  def overwrite_field(self, field, username, password):
      if not self._check_field_existence(field):
          raise GhostpassException("field {} doesn't exist!".format(field))
      global_mutex.acquire()
      try:
          self.data[field] = (username, password)
      finally:
          global_mutex.release()
  \<close>
  \<^verbatim>\<open>self.data\<close> is a list and \<^verbatim>\<open>field\<close> a string: \<open>list_setitem_str\<close> is Python's
  item assignment on a list with a string as the index, which raises \<open>TypeError\<close>
  whatever the list holds.
\<close>

definition list_setitem_str :: "'a list \<Rightarrow> string \<Rightarrow> 'b \<Rightarrow> failure + 'a list" where
  "list_setitem_str xs index v = Inl TypeError"

definition overwrite_field ::
  "'m world \<Rightarrow> string \<Rightarrow> string \<Rightarrow> string \<Rightarrow> (failure + unit) \<times> 'm world" where
  "overwrite_field w field username pw =
     (if \<not> check_field_existence (self w) field then (Inl (not_found field), w)
      else if global_mutex w then (Inl Blocked, w)
      else
        let w1 = w\<lparr>global_mutex := True\<rparr> in
        case list_setitem_str (data (self w1)) field (username, pw) of
          Inl e \<Rightarrow> (Inl e, w1\<lparr>global_mutex := False\<rparr>)
        | Inr d \<Rightarrow> (Inr (), w1\<lparr>self := (self w1)\<lparr>data := d\<rparr>, global_mutex := False\<rparr>))"

subsection \<open>The encryption and decryption passes\<close>

text \<open>
  \<^verbatim>\<open>
  def encrypt_fields(self):
      for f in self.data:
          for key, value in f.iteritems():
              f[key] = (self.aeshelp.encrypt(value[0]), self.aeshelp.encrypt(value[1]))
      self.encrypted = True

  def decrypt_fields(self):
      for f in self.data:
          for key, value in f.iteritems():
              f[key] = (self.aeshelp.decrypt(value[0]), self.aeshelp.decrypt(value[1]))
      self.encrypted = False
  \<close>
  The two methods differ in the method of \<^verbatim>\<open>self.aeshelp\<close> they call and in the flag
  they store; \<open>crypt_items\<close> is the inner loop and \<open>crypt_dicts\<close> the outer one, with
  the method as the parameter \<open>meth\<close>. The dictionaries are changed in place, so a pass
  that raises leaves the entries before the failing one transformed. The third argument
  of \<open>crypt_items\<close> is the dictionary as changed so far; the second the items still to
  visit. Assigning to a key that exists does not change the iteration, and every key is
  visited once, so the value read at a key is the one stored there before the pass.
\<close>

fun crypt_items ::
  "(aeshelper \<Rightarrow> string \<Rightarrow> failure + string) \<Rightarrow> aeshelper option \<Rightarrow> dict \<Rightarrow> dict
     \<Rightarrow> (failure + unit) \<times> dict" where
  "crypt_items meth h [] f = (Inr (), f)"
| "crypt_items meth h ((key, val) # items) f =
     (case h of
        None \<Rightarrow> (Inl AttributeError, f)
      | Some a \<Rightarrow>
          (case meth a (fst val) of
             Inl e \<Rightarrow> (Inl e, f)
           | Inr v0 \<Rightarrow>
               (case meth a (snd val) of
                  Inl e \<Rightarrow> (Inl e, f)
                | Inr v1 \<Rightarrow> crypt_items meth h items (AList.update key (v0, v1) f))))"

fun crypt_dicts ::
  "(aeshelper \<Rightarrow> string \<Rightarrow> failure + string) \<Rightarrow> aeshelper option \<Rightarrow> dict list
     \<Rightarrow> (failure + unit) \<times> dict list" where
  "crypt_dicts meth h [] = (Inr (), [])"
| "crypt_dicts meth h (f # fs) =
     (case crypt_items meth h f f of
        (Inl e, f') \<Rightarrow> (Inl e, f' # fs)
      | (Inr u, f') \<Rightarrow>
          (case crypt_dicts meth h fs of (r, fs') \<Rightarrow> (r, f' # fs')))"

definition encrypt_fields :: "'m ghostpass \<Rightarrow> (failure + unit) \<times> 'm ghostpass" where
  "encrypt_fields s =
     (case crypt_dicts encrypt (aeshelp s) (data s) of
        (Inl e, d) \<Rightarrow> (Inl e, s\<lparr>data := d\<rparr>)
      | (Inr u, d) \<Rightarrow> (Inr (), s\<lparr>data := d, encrypted := True\<rparr>))"

definition decrypt_fields :: "'m ghostpass \<Rightarrow> (failure + unit) \<times> 'm ghostpass" where
  "decrypt_fields s =
     (case crypt_dicts decrypt (aeshelp s) (data s) of
        (Inl e, d) \<Rightarrow> (Inl e, s\<lparr>data := d\<rparr>)
      | (Inr u, d) \<Rightarrow> (Inr (), s\<lparr>data := d, encrypted := False\<rparr>))"

subsection \<open>Session set-up and the file codec\<close>

text \<open>
  \<^verbatim>\<open>
  def load_corpus(self, initial_doc):
      self.model = crypto.MarkovHelper(initial_doc)
      self.model.generate_key(self.password)
      self.model.init_mc()
  \<close>
  The two method calls change the model object in place: they return the changed object
  here.
\<close>

definition load_corpus ::
  "'m collaborators \<Rightarrow> 'm ghostpass \<Rightarrow> string list \<Rightarrow> (failure + unit) \<times> 'm ghostpass" where
  "load_corpus X s initial_doc =
     (case MarkovHelper X initial_doc of
        Inl e \<Rightarrow> (Inl e, s)
      | Inr m0 \<Rightarrow>
          (case generate_key X m0 (password s) of
             Inl e \<Rightarrow> (Inl e, s\<lparr>model := Some m0\<rparr>)
           | Inr m1 \<Rightarrow>
               (case init_mc X m1 of
                  Inl e \<Rightarrow> (Inl e, s\<lparr>model := Some m1\<rparr>)
                | Inr m2 \<Rightarrow> (Inr (), s\<lparr>model := Some m2\<rparr>))))"

text \<open>
  \<^verbatim>\<open>
  def init_state(self, password, corpus):
      if password == "" or password == None:
          raise GhostpassException("master password is not optional")
      if corpus == "" or corpus == None:
          raise GhostpassException("corpus path is not optional")
      self.password = hashlib.sha512(password.encode('utf-8')).hexdigest()
      self.aeshelp = crypto.AESHelper(self.password)
      with open(corpus, 'r') as corpus_file:
          initial_doc = corpus_file.readlines()
      self.load_corpus(initial_doc)
      del password
  \<close>
  \<open>sha512_hexdigest X\<close> is \<^verbatim>\<open>hashlib.sha512(p.encode('utf-8')).hexdigest()\<close> as a whole.
\<close>

definition missing_password :: failure where
  "missing_password = GhostpassException ''master password is not optional''"

definition missing_corpus :: failure where
  "missing_corpus = GhostpassException ''corpus path is not optional''"

definition hash_and_load ::
  "'m collaborators \<Rightarrow> 'm ghostpass \<Rightarrow> string \<Rightarrow> string \<Rightarrow> (failure + unit) \<times> 'm ghostpass" where
  "hash_and_load X s pw corpus =
     (case sha512_hexdigest X pw of
        Inl e \<Rightarrow> (Inl e, s)
      | Inr digest \<Rightarrow>
          let s1 = s\<lparr>password := Some digest\<rparr> in
          (case AESHelper X digest of
             Inl e \<Rightarrow> (Inl e, s1)
           | Inr a \<Rightarrow>
               let s2 = s1\<lparr>aeshelp := Some a\<rparr> in
               (case readlines X corpus of
                  Inl e \<Rightarrow> (Inl e, s2)
                | Inr initial_doc \<Rightarrow> load_corpus X s2 initial_doc)))"

text \<open>
  The arguments are \<open>None\<close> or a string. The two guards come first and in the source's
  order; \<open>hash_and_load\<close> is the rest of the body.
\<close>

definition init_state ::
  "'m collaborators \<Rightarrow> 'm ghostpass \<Rightarrow> string option \<Rightarrow> string option
     \<Rightarrow> (failure + unit) \<times> 'm ghostpass" where
  "init_state X s pw corpus =
     (case pw of
        None \<Rightarrow> (Inl missing_password, s)
      | Some p \<Rightarrow>
          if p = [] then (Inl missing_password, s)
          else
            (case corpus of
               None \<Rightarrow> (Inl missing_corpus, s)
             | Some c \<Rightarrow>
                 if c = [] then (Inl missing_corpus, s)
                 else hash_and_load X s p c))"

text \<open>
  \<^verbatim>\<open>
  def encode_file(self):
      self.model.encrypt_text()

  def decode_file(self, ciphertext):
      return 0
  \<close>
  \<^verbatim>\<open>encode_file\<close> takes no payload and returns nothing (\<open>()\<close> is Python's \<^verbatim>\<open>None\<close>);
  \<^verbatim>\<open>decode_file\<close> returns the integer 0.
\<close>

definition encode_file :: "'m collaborators \<Rightarrow> 'm ghostpass \<Rightarrow> (failure + unit) \<times> 'm ghostpass" where
  "encode_file X s =
     (case model s of
        None \<Rightarrow> (Inl AttributeError, s)
      | Some m \<Rightarrow>
          (case encrypt_text X m of
             Inl e \<Rightarrow> (Inl e, s)
           | Inr m' \<Rightarrow> (Inr (), s\<lparr>model := Some m'\<rparr>)))"

definition decode_file :: "'m ghostpass \<Rightarrow> string \<Rightarrow> int" where
  "decode_file s ciphertext = 0"

section \<open>Vocabulary of the properties\<close>

text \<open>
  The names of all entries, the username and secret values of all entries, and the data
  with a function applied to every value (the names are kept).
\<close>

definition field_names :: "dict list \<Rightarrow> string list" where
  "field_names ds = concat (map (map fst) ds)"

definition item_values :: "dict \<Rightarrow> string list" where
  "item_values f = concat (map (\<lambda>(k, v). [fst v, snd v]) f)"

definition values_of :: "dict list \<Rightarrow> string list" where
  "values_of ds = concat (map item_values ds)"

definition transform_data :: "(string \<Rightarrow> string) \<Rightarrow> dict list \<Rightarrow> dict list" where
  "transform_data g ds = map (map (\<lambda>(k, v). (k, (g (fst v), g (snd v))))) ds"





section \<open>A concrete session\<close>

text \<open>
  Stand-ins for the collaborators, to run the methods on concrete inputs: a cipher that
  puts a mark in front of the plaintext and takes it off again, a digest that is one
  fixed string, a file system with one corpus, a Markov helper without content, and a
  table printed as the concatenation of its cells. The session is the one of the
  specification's scenario: \<^verbatim>\<open>init_state\<close>, then
  \<^verbatim>\<open>add_field("email", "a@b.com", "secret123")\<close>.
\<close>

definition prefix_cipher :: aeshelper where
  "prefix_cipher =
     \<lparr>encrypt = (\<lambda>p. Inr (CHR ''#'' # p)),
      decrypt = (\<lambda>c. case c of
                   [] \<Rightarrow> Inl (Foreign ''bad ciphertext'')
                 | x # p \<Rightarrow> if x = CHR ''#'' then Inr p else Inl (Foreign ''bad ciphertext''))\<rparr>"

definition stub_collaborators :: "unit collaborators" where
  "stub_collaborators =
     \<lparr>sha512_hexdigest = (\<lambda>p. Inr ''9b71d224''),
      AESHelper = (\<lambda>key. Inr prefix_cipher),
      readlines = (\<lambda>path. Inr [''the quick brown fox'', ''the lazy dog sleeps'', ''the fox jumps high'']),
      MarkovHelper = (\<lambda>doc. Inr ()),
      generate_key = (\<lambda>m key. Inr m),
      init_mc = (\<lambda>m. Inr m),
      encrypt_text = (\<lambda>m. Inr m),
      tabulate = (\<lambda>rows hdr. concat (concat (hdr # rows)))\<rparr>"

definition scenario_session :: "unit ghostpass" where
  "scenario_session =
     snd (init_state stub_collaborators (Ghostpass ''AdaGrace42'')
            (Some ''Tr0ub4dor&3'') (Some ''corpus.txt''))"

definition scenario_world :: "unit world" where
  "scenario_world =
     snd (add_field \<lparr>global_mutex = False, self = scenario_session\<rparr>
            ''email'' ''a@b.com'' ''secret123'')"

definition email_session :: "unit ghostpass" where
  "email_session = self scenario_world"

text \<open>The same session after \<^verbatim>\<open>encrypt_fields\<close>, with the lock free.\<close>

definition encrypted_world :: "unit world" where
  "encrypted_world = \<lparr>global_mutex = False, self = snd (encrypt_fields email_session)\<rparr>"

section \<open>Properties\<close>

subsection \<open>Helper facts: field lookup\<close>

lemma check_items_iff: "check_items f field = (field \<in> fst ` set f)"
  by (induction f field rule: check_items.induct) auto

lemma check_dicts_iff: "check_dicts ds field = (\<exists>f \<in> set ds. field \<in> fst ` set f)"
  by (induction ds) (auto simp: check_items_iff)

lemma check_field_existence_iff:
  "check_field_existence s name = (name \<in> set (field_names (data s)))"
  by (auto simp: check_field_existence_def check_dicts_iff field_names_def)

lemma errors_differ: "already_exists name \<noteq> not_found name"
  by (simp add: already_exists_def not_found_def GhostpassException_def)

subsection \<open>Helper facts: vaults built by the operations\<close>

text \<open>
  The properties below are about vaults with well-formed dictionaries or with unique
  field names. A new vault is one, and the operations that change the list of entries
  keep it one; unique names make the dictionaries well-formed.
\<close>

lemma unique_names_wf_data: "distinct (field_names ds) \<Longrightarrow> wf_data ds"
  by (induction ds) (simp_all add: field_names_def wf_data_def wf_dict_def)

lemma field_names_filter: "distinct (field_names ds) \<Longrightarrow> distinct (field_names (filter P ds))"
  by (induction ds) (auto simp: field_names_def)

lemma vault_operations_keep_names_unique:
  assumes "distinct (field_names (data (self w)))"
  shows "distinct (field_names (data (self (snd (add_field w name username secret)))))"
    and "distinct (field_names (data (self (snd (remove_field w name)))))"
    and "distinct (field_names (data (self (snd (overwrite_field w name username secret)))))"
proof -
  show "distinct (field_names (data (self (snd (add_field w name username secret)))))"
    using assms by (simp add: add_field_def Let_def check_field_existence_iff field_names_def)
  show "distinct (field_names (data (self (snd (remove_field w name)))))"
    using assms by (simp add: remove_field_def Let_def field_names_filter)
  show "distinct (field_names (data (self (snd (overwrite_field w name username secret)))))"
    using assms by (simp add: overwrite_field_def list_setitem_str_def)
qed

lemma new_vault_names_unique: "distinct (field_names (data (Ghostpass u)))"
  by (simp add: Ghostpass_def field_names_def)

subsection \<open>Helper facts: the concrete session\<close>

lemma scenario_session_eq:
  "scenario_session =
     \<lparr>uuid = ''AdaGrace42'', password = Some ''9b71d224'', encrypted = False, data = [],
      aeshelp = Some prefix_cipher, model = Some ()\<rparr>"
  by (simp add: scenario_session_def init_state_def hash_and_load_def load_corpus_def
      stub_collaborators_def Ghostpass_def)

lemma email_session_eq:
  "email_session =
     \<lparr>uuid = ''AdaGrace42'', password = Some ''9b71d224'', encrypted = False,
      data = [[(''email'', (''a@b.com'', ''secret123''))]],
      aeshelp = Some prefix_cipher, model = Some ()\<rparr>"
  by (simp add: email_session_def scenario_world_def scenario_session_eq add_field_def
      check_field_existence_def Let_def)

lemma scenario_world_eq:
  "scenario_world = \<lparr>global_mutex = False, self = email_session\<rparr>"
  by (simp add: email_session_def scenario_world_def add_field_def Let_def)

lemma encrypted_world_eq:
  "encrypted_world =
     \<lparr>global_mutex = False,
      self = \<lparr>uuid = ''AdaGrace42'', password = Some ''9b71d224'', encrypted = True,
              data = [[(''email'', (''#a@b.com'', ''#secret123''))]],
              aeshelp = Some prefix_cipher, model = Some ()\<rparr>\<rparr>"
  by (simp add: encrypted_world_def encrypt_fields_def email_session_eq prefix_cipher_def)

lemma prefix_cipher_encrypt: "encrypt prefix_cipher x = Inr (CHR ''#'' # x)"
  by (simp add: prefix_cipher_def)

lemma prefix_cipher_decrypt: "decrypt prefix_cipher (CHR ''#'' # x) = Inr x"
  by (simp add: prefix_cipher_def)

subsection \<open>Helper facts: a pass whose cipher accepts every stored value\<close>

lemma item_values_simps [simp]:
  "item_values [] = []"
  "item_values ((k, v) # items) = fst v # snd v # item_values items"
  by (simp_all add: item_values_def)

lemma values_of_simps [simp]:
  "values_of [] = []"
  "values_of (f # fs) = item_values f @ values_of fs"
  by (simp_all add: values_of_def)

lemma in_item_values:
  "(k, v) \<in> set f \<Longrightarrow> fst v \<in> set (item_values f) \<and> snd v \<in> set (item_values f)"
  by (induction f) auto

lemma update_middle:
  "k \<notin> fst ` set pre \<Longrightarrow> AList.update k v (pre @ (k, v0) # rest) = pre @ (k, v) # rest"
  by (induction pre) auto

text \<open>
  The inner loop, started on the items \<open>items\<close> that are still to visit of a dictionary
  \<open>pre @ items\<close> whose visited part is \<open>pre\<close>: when the keys are distinct and the method
  returns \<open>g x\<close> on every value \<open>x\<close> it meets, the loop ends normally and has replaced
  every value by its image.
\<close>

lemma crypt_items_succeeds:
  assumes "\<And>k v. (k, v) \<in> set items \<Longrightarrow>
             meth a (fst v) = Inr (g (fst v)) \<and> meth a (snd v) = Inr (g (snd v))"
    and "distinct (map fst items)"
    and "fst ` set pre \<inter> fst ` set items = {}"
  shows "crypt_items meth (Some a) items (pre @ items)
         = (Inr (), pre @ map (\<lambda>(k, v). (k, (g (fst v), g (snd v)))) items)"
  using assms
proof (induction items arbitrary: pre)
  case Nil
  then show ?case by simp
next
  case (Cons kv items)
  obtain k v where kv: "kv = (k, v)" by (cases kv)
  have k_pre: "k \<notin> fst ` set pre" using Cons.prems(3) kv by auto
  have m: "meth a (fst v) = Inr (g (fst v))" "meth a (snd v) = Inr (g (snd v))"
    using Cons.prems(1)[of k v] kv by auto
  let ?new = "(k, (g (fst v), g (snd v)))"
  have d1: "distinct (map fst items)" using Cons.prems(2) by simp
  have k_items: "k \<notin> fst ` set items" using Cons.prems(2) kv by simp
  have disj: "fst ` set (pre @ [?new]) \<inter> fst ` set items = {}"
    using Cons.prems(3) k_items kv by auto
  have p1: "meth a (fst v') = Inr (g (fst v')) \<and> meth a (snd v') = Inr (g (snd v'))"
    if "(k', v') \<in> set items" for k' v'
    using Cons.prems(1)[of k' v'] that by simp
  have ih: "crypt_items meth (Some a) items ((pre @ [?new]) @ items)
        = (Inr (), (pre @ [?new]) @ map (\<lambda>(k, v). (k, (g (fst v), g (snd v)))) items)"
    by (rule Cons.IH[OF p1 d1 disj])
  have upd: "AList.update k (g (fst v), g (snd v)) (pre @ (k, v) # items) = pre @ ?new # items"
    by (rule update_middle[OF k_pre])
  show ?case
    unfolding kv using m upd ih by simp
qed

lemma crypt_dicts_succeeds:
  assumes "\<And>x. x \<in> set (values_of ds) \<Longrightarrow> meth a x = Inr (g x)"
    and "wf_data ds"
  shows "crypt_dicts meth (Some a) ds = (Inr (), transform_data g ds)"
  using assms
proof (induction ds)
  case Nil
  then show ?case by (simp add: transform_data_def)
next
  case (Cons f fs)
  have vals: "meth a (fst v) = Inr (g (fst v)) \<and> meth a (snd v) = Inr (g (snd v))"
    if "(k, v) \<in> set f" for k v
    using in_item_values[OF that] Cons.prems(1)[of "fst v"] Cons.prems(1)[of "snd v"] by simp
  have df: "distinct (map fst f)" using Cons.prems(2) by (simp add: wf_data_def wf_dict_def)
  have "crypt_items meth (Some a) f ([] @ f)
        = (Inr (), [] @ map (\<lambda>(k, v). (k, (g (fst v), g (snd v)))) f)"
  proof (rule crypt_items_succeeds)
    show "distinct (map fst f)" by (rule df)
    show "fst ` set [] \<inter> fst ` set f = {}" by simp
    show "meth a (fst v) = Inr (g (fst v)) \<and> meth a (snd v) = Inr (g (snd v))"
      if "(k, v) \<in> set f" for k v by (rule vals[OF that])
  qed
  then have one: "crypt_items meth (Some a) f f
                  = (Inr (), map (\<lambda>(k, v). (k, (g (fst v), g (snd v)))) f)"
    by simp
  have wfs: "wf_data fs" using Cons.prems(2) by (simp add: wf_data_def)
  have sub: "meth a x = Inr (g x)" if "x \<in> set (values_of fs)" for x
    using Cons.prems(1)[of x] that by simp
  have rest: "crypt_dicts meth (Some a) fs = (Inr (), transform_data g fs)"
    by (rule Cons.IH[OF sub wfs])
  show ?case using one rest by (simp add: transform_data_def)
qed

lemma item_values_map:
  "item_values (map (\<lambda>(k, v). (k, (g (fst v), g (snd v)))) f) = map g (item_values f)"
  by (induction f) auto

lemma values_of_transform: "values_of (transform_data g ds) = map g (values_of ds)"
  by (induction ds) (simp_all add: transform_data_def item_values_map)

lemma wf_data_transform: "wf_data (transform_data g ds) = wf_data ds"
proof -
  have "wf_dict (map (\<lambda>(k, v). (k, (g (fst v), g (snd v)))) f) = wf_dict f" for f :: dict
    by (simp add: wf_dict_def o_def split_def)
  then show ?thesis
    by (induction ds) (simp_all add: wf_data_def transform_data_def)
qed

lemma transform_transform:
  assumes "\<And>x. d (g x) = x"
  shows "transform_data d (transform_data g ds) = ds"
proof -
  have "map (\<lambda>(k, v). (k, (d (fst v), d (snd v))))
          (map (\<lambda>(k, v). (k, (g (fst v), g (snd v)))) f) = f" for f :: dict
    by (induction f) (simp_all add: split_def assms)
  then show ?thesis
    by (induction ds) (simp_all add: transform_data_def)
qed

subsection \<open>The round trip of the two passes\<close>

text \<open>
  C1. On a session with a cipher helper whose \<open>encrypt\<close> accepts every string (\<open>E\<close> is
  what it returns) and whose \<open>decrypt\<close> takes every such ciphertext back to its
  plaintext, and with well-formed dictionaries, \<open>encrypt_fields\<close> returns normally with
  every username and secret replaced by its ciphertext and the names kept, and
  \<open>decrypt_fields\<close> on the result returns normally with every entry back at its
  original name, username and secret, the flag cleared: the session is the plaintext
  session it started from.
\<close>

theorem encrypt_decrypt_round_trip:
  assumes "aeshelp s = Some a"
    and "\<And>x. encrypt a x = Inr (E x)"
    and "\<And>x. decrypt a (E x) = Inr x"
    and "wf_data (data s)"
  shows "encrypt_fields s = (Inr (), s\<lparr>data := transform_data E (data s), encrypted := True\<rparr>)
       \<and> decrypt_fields (snd (encrypt_fields s)) = (Inr (), s\<lparr>encrypted := False\<rparr>)"
proof -
  let ?D = "\<lambda>c. case decrypt a c of Inr p \<Rightarrow> p | Inl e \<Rightarrow> c"
  have enc: "crypt_dicts encrypt (Some a) (data s) = (Inr (), transform_data E (data s))"
    by (rule crypt_dicts_succeeds) (simp_all add: assms)
  have inv: "?D (E x) = x" for x by (simp add: assms(3))
  have dec_ok: "decrypt a c = Inr (?D c)"
    if "c \<in> set (values_of (transform_data E (data s)))" for c
    using that assms(3) by (auto simp: values_of_transform)
  have dec: "crypt_dicts decrypt (Some a) (transform_data E (data s))
             = (Inr (), transform_data ?D (transform_data E (data s)))"
  proof (rule crypt_dicts_succeeds[where g = ?D and meth = decrypt])
    show "wf_data (transform_data E (data s))" by (simp add: wf_data_transform assms(4))
    show "decrypt a c = Inr (?D c)" if "c \<in> set (values_of (transform_data E (data s)))" for c
      by (rule dec_ok[OF that])
  qed
  have undo: "transform_data ?D (transform_data E (data s)) = data s"
    by (rule transform_transform) (rule inv)
  have first: "encrypt_fields s
               = (Inr (), s\<lparr>data := transform_data E (data s), encrypted := True\<rparr>)"
    by (simp add: encrypt_fields_def assms(1) enc)
  have second: "decrypt_fields (s\<lparr>data := transform_data E (data s), encrypted := True\<rparr>)
                = (Inr (), s\<lparr>encrypted := False\<rparr>)"
    by (simp add: decrypt_fields_def assms(1) dec undo)
  show ?thesis using first second by simp
qed

theorem encrypt_decrypt_round_trip_witness:
  "aeshelp email_session = Some prefix_cipher
   \<and> (\<forall>x. encrypt prefix_cipher x = Inr (CHR ''#'' # x))
   \<and> (\<forall>x. decrypt prefix_cipher (CHR ''#'' # x) = Inr x)
   \<and> wf_data (data email_session)
   \<and> data (snd (encrypt_fields email_session)) = [[(''email'', (''#a@b.com'', ''#secret123''))]]
   \<and> decrypt_fields (snd (encrypt_fields email_session)) = (Inr (), email_session)"
proof -
  have h1: "aeshelp email_session = Some prefix_cipher" by (simp add: email_session_eq)
  have h2: "encrypt prefix_cipher x = Inr (CHR ''#'' # x)" for x by (rule prefix_cipher_encrypt)
  have h3: "decrypt prefix_cipher (CHR ''#'' # x) = Inr x" for x by (rule prefix_cipher_decrypt)
  have h4: "wf_data (data email_session)" by (simp add: email_session_eq wf_data_def wf_dict_def)
  have flag: "email_session\<lparr>encrypted := False\<rparr> = email_session" by (simp add: email_session_eq)
  have d: "transform_data ((#) CHR ''#'') (data email_session)
           = [[(''email'', (''#a@b.com'', ''#secret123''))]]"
    by (simp add: transform_data_def email_session_eq)
  note rt = encrypt_decrypt_round_trip[of email_session prefix_cipher "(#) CHR ''#''", OF h1 h2 h3 h4]
  have e: "data (snd (encrypt_fields email_session)) = [[(''email'', (''#a@b.com'', ''#secret123''))]]"
    using rt[THEN conjunct1] d by simp
  have r: "decrypt_fields (snd (encrypt_fields email_session)) = (Inr (), email_session)"
    using rt[THEN conjunct2] flag by simp
  show ?thesis using h1 h2 h3 h4 e r by simp
qed


subsection \<open>Which error, and when\<close>

text \<open>
  C5. \<open>add_field\<close> fails with the "already exists" error exactly when an entry of that
  name exists; \<open>remove_field\<close>, \<open>overwrite_field\<close> and \<open>view_field\<close> fail with the
  "doesn't exist" error exactly when none does; the two errors are different.
\<close>

theorem existence_errors:
  "(fst (add_field w name username secret) = Inl (already_exists name))
      = (name \<in> set (field_names (data (self w))))
   \<and> (fst (remove_field w name) = Inl (not_found name))
      = (name \<notin> set (field_names (data (self w))))
   \<and> (fst (overwrite_field w name username secret) = Inl (not_found name))
      = (name \<notin> set (field_names (data (self w))))
   \<and> (view_field X (self w) name = Inl (not_found name))
      = (name \<notin> set (field_names (data (self w))))
   \<and> already_exists name \<noteq> not_found name"
  by (simp add: add_field_def remove_field_def overwrite_field_def view_field_def
      list_setitem_str_def check_field_existence_iff errors_differ
      already_exists_def not_found_def GhostpassException_def Let_def)

theorem existence_errors_witness:
  "fst (add_field scenario_world ''email'' ''c@d.org'' ''hunter2'') = Inl (already_exists ''email'')
   \<and> fst (add_field scenario_world ''bank'' ''c@d.org'' ''hunter2'') \<noteq> Inl (already_exists ''bank'')
   \<and> fst (remove_field scenario_world ''bank'') = Inl (not_found ''bank'')
   \<and> fst (remove_field scenario_world ''email'') \<noteq> Inl (not_found ''email'')
   \<and> fst (overwrite_field scenario_world ''bank'' ''c@d.org'' ''hunter2'') = Inl (not_found ''bank'')
   \<and> view_field stub_collaborators (self scenario_world) ''bank'' = Inl (not_found ''bank'')"
proof -
  have names: "field_names (data (self scenario_world)) = [''email'']"
    by (simp add: scenario_world_eq email_session_eq field_names_def)
  show ?thesis
    using existence_errors[of scenario_world "''email''" "''c@d.org''" "''hunter2''" stub_collaborators]
      existence_errors[of scenario_world "''bank''" "''c@d.org''" "''hunter2''" stub_collaborators]
    by (simp add: names)
qed

subsection \<open>What \<open>view_field\<close> returns\<close>

lemma view_items_eq:
  "view_items f name entry
   = entry @ map (\<lambda>(k, v). [k, fst v, snd v]) (filter (\<lambda>(k, v). k = name) f)"
  by (induction f name entry rule: view_items.induct) auto

lemma view_dicts_eq:
  "view_dicts ds name entry
   = entry @ map (\<lambda>(k, v). [k, fst v, snd v]) (filter (\<lambda>(k, v). k = name) (concat ds))"
  by (induction ds arbitrary: entry) (simp_all add: view_items_eq)

lemma filter_distinct_key:
  "distinct (map fst xs) \<Longrightarrow> (k, v) \<in> set xs \<Longrightarrow> filter (\<lambda>(k', v'). k' = k) xs = [(k, v)]"
proof (induction xs)
  case Nil
  then show ?case by simp
next
  case (Cons x xs)
  show ?case
  proof (cases "x = (k, v)")
    case True
    then have "k \<notin> fst ` set xs" using Cons.prems(1) by simp
    then have "\<forall>y \<in> set xs. fst y \<noteq> k" by (metis imageI)
    then have "filter (\<lambda>(k', v'). k' = k) xs = []"
      by (simp add: filter_empty_conv split_def)
    then show ?thesis using True by simp
  next
    case False
    have in_xs: "(k, v) \<in> set xs" using False Cons.prems(2) by auto
    have "k \<in> fst ` set xs" using in_xs by (metis fst_conv imageI)
    moreover have "fst x \<notin> fst ` set xs" using Cons.prems(1) by simp
    ultimately have "fst x \<noteq> k" by blast
    moreover have "filter (\<lambda>(k', v'). k' = k) xs = [(k, v)]"
      using Cons.IH Cons.prems(1) in_xs by simp
    ultimately show ?thesis by (simp add: split_def)
  qed
qed

lemma field_names_concat: "field_names ds = map fst (concat ds)"
  by (simp add: field_names_def map_concat)

text \<open>
  C8, as the code has it. The claim that \<open>view_field\<close> returns the tuple of the name, the
  username and the secret fails: in the scenario of the specification it returns the
  string that \<^verbatim>\<open>tabulate.tabulate\<close> makes of the table, which is no tuple.
\<close>

theorem view_field_returns_tuple_counterexample:
  "view_field stub_collaborators (self scenario_world) ''email''
     = Inr (Str (tabulate stub_collaborators [[''email'', ''a@b.com'', ''secret123'']] headers))
   \<and> view_field stub_collaborators (self scenario_world) ''email''
     \<noteq> Inr (Tuple [''email'', ''a@b.com'', ''secret123''])"
  by (simp add: scenario_world_eq email_session_eq view_field_def check_field_existence_def)

text \<open>
  C8, amended. In a session whose field names are unique and that holds an entry \<open>name\<close>
  with the username \<open>username\<close> and the secret \<open>secret\<close> (as stored: plaintext or
  ciphertext), the table that \<open>view_field\<close> builds has the one row
  \<open>[name, username, secret]\<close>, and \<open>view_field\<close> returns the string that
  \<^verbatim>\<open>tabulate.tabulate\<close> makes of that table under the headers Field, Username and
  Password. In the scenario, after \<^verbatim>\<open>add_field("email", "a@b.com", "secret123")\<close> on the
  plaintext session, the row is \<open>[email, a@b.com, secret123]\<close>.
\<close>

theorem view_field_returns_entry:
  assumes "f \<in> set (data s)"
    and "(name, (username, secret)) \<in> set f"
    and "distinct (field_names (data s))"
  shows "view_dicts (data s) name [] = [[name, username, secret]]
       \<and> view_field X s name = Inr (Str (tabulate X [[name, username, secret]] headers))"
proof -
  have mem: "(name, (username, secret)) \<in> set (concat (data s))"
    using assms(1,2) by auto
  have ex: "check_field_existence s name"
    using mem by (force simp: check_field_existence_iff field_names_concat)
  have "filter (\<lambda>(k', v'). k' = name) (concat (data s)) = [(name, (username, secret))]"
    by (rule filter_distinct_key) (use assms(3) mem in \<open>simp_all add: field_names_concat\<close>)
  then have rows: "view_dicts (data s) name [] = [[name, username, secret]]"
    by (simp add: view_dicts_eq)
  then show ?thesis using ex by (simp add: view_field_def)
qed

theorem view_field_returns_entry_witness:
  "[(''email'', (''a@b.com'', ''secret123''))] \<in> set (data (self scenario_world))
   \<and> (''email'', (''a@b.com'', ''secret123'')) \<in> set [(''email'', (''a@b.com'', ''secret123''))]
   \<and> distinct (field_names (data (self scenario_world)))
   \<and> \<not> encrypted (self scenario_world)
   \<and> view_dicts (data (self scenario_world)) ''email'' [] = [[''email'', ''a@b.com'', ''secret123'']]
   \<and> view_field stub_collaborators (self scenario_world) ''email''
       = Inr (Str (tabulate stub_collaborators [[''email'', ''a@b.com'', ''secret123'']] headers))"
proof -
  have s: "self scenario_world = email_session" by (simp add: scenario_world_eq)
  have h1: "[(''email'', (''a@b.com'', ''secret123''))] \<in> set (data (self scenario_world))"
    by (simp add: s email_session_eq)
  have h2: "(''email'', (''a@b.com'', ''secret123'')) \<in> set [(''email'', (''a@b.com'', ''secret123''))]"
    by simp
  have h3: "distinct (field_names (data (self scenario_world)))"
    by (simp add: s email_session_eq field_names_def)
  have h4: "\<not> encrypted (self scenario_world)" by (simp add: s email_session_eq)
  show ?thesis
    using view_field_returns_entry[OF h1 h2 h3, of stub_collaborators] h1 h2 h3 h4 by simp
qed

subsection \<open>\<open>overwrite_field\<close> and \<open>view_all\<close>\<close>

text \<open>
  C9. When the field exists (and the lock is free, as it is between two calls of one
  thread), \<open>overwrite_field\<close> raises \<open>TypeError\<close> and leaves the state as it was: the
  entries unchanged and the lock released. Whatever its arguments, it never returns
  normally and never changes the session.
\<close>

theorem overwrite_field_type_error:
  "(name \<in> set (field_names (data (self w))) \<and> \<not> global_mutex w \<longrightarrow>
      overwrite_field w name username secret = (Inl TypeError, w)
      \<and> data (self (snd (overwrite_field w name username secret))) = data (self w)
      \<and> \<not> global_mutex (snd (overwrite_field w name username secret)))
   \<and> fst (overwrite_field w name username secret) \<noteq> Inr ()
   \<and> self (snd (overwrite_field w name username secret)) = self w"
  by (simp add: overwrite_field_def list_setitem_str_def check_field_existence_iff)

theorem overwrite_field_type_error_witness:
  "''email'' \<in> set (field_names (data (self scenario_world)))
   \<and> \<not> global_mutex scenario_world
   \<and> overwrite_field scenario_world ''email'' ''c@d.org'' ''hunter2'' = (Inl TypeError, scenario_world)
   \<and> data (self (snd (overwrite_field scenario_world ''email'' ''c@d.org'' ''hunter2'')))
       = [[(''email'', (''a@b.com'', ''secret123''))]]"
proof -
  have h1: "''email'' \<in> set (field_names (data (self scenario_world)))"
    by (simp add: scenario_world_eq email_session_eq field_names_def)
  have h2: "\<not> global_mutex scenario_world" by (simp add: scenario_world_eq)
  have d: "data (self scenario_world) = [[(''email'', (''a@b.com'', ''secret123''))]]"
    by (simp add: scenario_world_eq email_session_eq)
  show ?thesis
    using overwrite_field_type_error[of "''email''" scenario_world "''c@d.org''" "''hunter2''"] h1 h2 d
    by simp
qed

text \<open>
  C10. \<open>view_all\<close> raises \<open>NameError\<close> in every session, the empty vault included, and
  so never returns a table.
\<close>

theorem view_all_name_error: "view_all X s = Inl NameError"
  by (simp add: view_all_def)

theorem view_all_name_error_witness:
  "view_all stub_collaborators (Ghostpass ''AdaGrace42'') = Inl NameError
   \<and> data (Ghostpass ''AdaGrace42'' :: unit ghostpass) = []
   \<and> view_all stub_collaborators email_session = Inl NameError"
  using view_all_name_error[of stub_collaborators "Ghostpass ''AdaGrace42''"]
    view_all_name_error[of stub_collaborators email_session]
  by (simp add: Ghostpass_def)

subsection \<open>The file codec\<close>

text \<open>
  C2. The code at a concrete input: on the scenario's session \<open>encode_file\<close> returns
  nothing, and \<open>decode_file\<close> returns the integer 0 for a text of the corpus, as for any
  other argument.
\<close>

theorem decode_file_returns_zero:
  "decode_file email_session ''the fox jumps high'' = 0
   \<and> fst (encode_file stub_collaborators email_session) = Inr ()"
  by (simp add: decode_file_def encode_file_def email_session_eq stub_collaborators_def)

subsection \<open>Session set-up\<close>

lemma guards_differ: "missing_password \<noteq> missing_corpus"
  by (simp add: missing_password_def missing_corpus_def GhostpassException_def)

lemma load_corpus_success:
  "load_corpus X s doc = (Inr (), s') \<Longrightarrow>
     \<exists>m0 m1 m2. MarkovHelper X doc = Inr m0 \<and> generate_key X m0 (password s) = Inr m1
        \<and> init_mc X m1 = Inr m2 \<and> s' = s\<lparr>model := Some m2\<rparr>"
  by (auto simp: load_corpus_def split: sum.splits)

lemma hash_and_load_success:
  "hash_and_load X s p c = (Inr (), s') \<Longrightarrow>
     \<exists>digest a doc m0 m1 m2.
        sha512_hexdigest X p = Inr digest \<and> AESHelper X digest = Inr a
        \<and> readlines X c = Inr doc \<and> MarkovHelper X doc = Inr m0
        \<and> generate_key X m0 (Some digest) = Inr m1 \<and> init_mc X m1 = Inr m2
        \<and> s' = s\<lparr>password := Some digest, aeshelp := Some a, model := Some m2\<rparr>"
  by (auto simp: hash_and_load_def Let_def split: sum.splits dest!: load_corpus_success)

text \<open>
  C7. \<open>init_state\<close> fails with the missing-password error when the password is \<open>None\<close>
  or empty. When the corpus path is \<open>None\<close> or empty it fails as well: with the
  missing-corpus error, unless the password is missing too, which is tested first and
  reported. The two errors differ.
  When it returns normally, both arguments were non-empty, the \<open>password\<close> attribute is
  the SHA-512 hex digest of the password, the cipher helper and the Markov key were made
  from that same stored digest, and no other attribute changed. The resulting session
  depends on the password through its digest only: two passwords of equal digest give
  the same result, so the cleartext is not kept.
\<close>

theorem init_state_contract:
  "(pw = None \<or> pw = Some [] \<longrightarrow> init_state X s pw corpus = (Inl missing_password, s))
   \<and> (corpus = None \<or> corpus = Some [] \<longrightarrow>
        init_state X s pw corpus
        = (Inl (if pw = None \<or> pw = Some [] then missing_password else missing_corpus), s))
   \<and> (init_state X s pw corpus = (Inr (), s') \<longrightarrow>
        (\<exists>p c digest a doc m0 m1 m2.
           pw = Some p \<and> p \<noteq> [] \<and> corpus = Some c \<and> c \<noteq> []
           \<and> sha512_hexdigest X p = Inr digest \<and> AESHelper X digest = Inr a
           \<and> readlines X c = Inr doc \<and> MarkovHelper X doc = Inr m0
           \<and> generate_key X m0 (Some digest) = Inr m1 \<and> init_mc X m1 = Inr m2
           \<and> s' = s\<lparr>password := Some digest, aeshelp := Some a, model := Some m2\<rparr>))
   \<and> (sha512_hexdigest X p = sha512_hexdigest X p' \<and> p \<noteq> [] \<and> p' \<noteq> [] \<longrightarrow>
        init_state X s (Some p) corpus = init_state X s (Some p') corpus)
   \<and> missing_password \<noteq> missing_corpus"
proof -
  have a: "pw = None \<or> pw = Some [] \<longrightarrow> init_state X s pw corpus = (Inl missing_password, s)"
    by (auto simp: init_state_def)
  have b: "corpus = None \<or> corpus = Some [] \<longrightarrow>
        init_state X s pw corpus
        = (Inl (if pw = None \<or> pw = Some [] then missing_password else missing_corpus), s)"
    by (auto simp: init_state_def split: option.splits)
  have c: "init_state X s pw corpus = (Inr (), s') \<longrightarrow>
        (\<exists>p c digest a doc m0 m1 m2.
           pw = Some p \<and> p \<noteq> [] \<and> corpus = Some c \<and> c \<noteq> []
           \<and> sha512_hexdigest X p = Inr digest \<and> AESHelper X digest = Inr a
           \<and> readlines X c = Inr doc \<and> MarkovHelper X doc = Inr m0
           \<and> generate_key X m0 (Some digest) = Inr m1 \<and> init_mc X m1 = Inr m2
           \<and> s' = s\<lparr>password := Some digest, aeshelp := Some a, model := Some m2\<rparr>)"
  proof
    assume ok: "init_state X s pw corpus = (Inr (), s')"
    then obtain p c where pc: "pw = Some p" "p \<noteq> []" "corpus = Some c" "c \<noteq> []"
      and hl: "hash_and_load X s p c = (Inr (), s')"
      by (auto simp: init_state_def split: option.splits if_splits)
    from hash_and_load_success[OF hl] pc show "\<exists>p c digest a doc m0 m1 m2.
           pw = Some p \<and> p \<noteq> [] \<and> corpus = Some c \<and> c \<noteq> []
           \<and> sha512_hexdigest X p = Inr digest \<and> AESHelper X digest = Inr a
           \<and> readlines X c = Inr doc \<and> MarkovHelper X doc = Inr m0
           \<and> generate_key X m0 (Some digest) = Inr m1 \<and> init_mc X m1 = Inr m2
           \<and> s' = s\<lparr>password := Some digest, aeshelp := Some a, model := Some m2\<rparr>"
      by blast
  qed
  have d: "sha512_hexdigest X p = sha512_hexdigest X p' \<and> p \<noteq> [] \<and> p' \<noteq> [] \<longrightarrow>
        init_state X s (Some p) corpus = init_state X s (Some p') corpus"
    by (auto simp: init_state_def hash_and_load_def split: option.splits)
  show ?thesis using a b c d guards_differ by blast
qed

theorem init_state_contract_witness:
  "init_state stub_collaborators (Ghostpass ''AdaGrace42'') None (Some ''corpus.txt'')
     = (Inl missing_password, Ghostpass ''AdaGrace42'')
   \<and> init_state stub_collaborators (Ghostpass ''AdaGrace42'') (Some ''Tr0ub4dor&3'') (Some [])
     = (Inl missing_corpus, Ghostpass ''AdaGrace42'')
   \<and> init_state stub_collaborators (Ghostpass ''AdaGrace42'') (Some ''Tr0ub4dor&3'') (Some ''corpus.txt'')
     = (Inr (), scenario_session)
   \<and> sha512_hexdigest stub_collaborators ''Tr0ub4dor&3'' = Inr ''9b71d224''
   \<and> password scenario_session = Some ''9b71d224''
   \<and> sha512_hexdigest stub_collaborators ''hunter2'' = Inr ''9b71d224''
   \<and> init_state stub_collaborators (Ghostpass ''AdaGrace42'') (Some ''hunter2'') (Some ''corpus.txt'')
     = (Inr (), scenario_session)"
proof -
  let ?g = "Ghostpass ''AdaGrace42'' :: unit ghostpass"
  have run: "init_state stub_collaborators ?g (Some ''Tr0ub4dor&3'') (Some ''corpus.txt'')
             = (Inr (), scenario_session)"
    by (simp add: scenario_session_eq init_state_def hash_and_load_def load_corpus_def
        stub_collaborators_def Ghostpass_def)
  have h: "sha512_hexdigest stub_collaborators ''Tr0ub4dor&3'' = Inr ''9b71d224''"
    by (simp add: stub_collaborators_def)
  have 1: "init_state stub_collaborators ?g None (Some ''corpus.txt'') = (Inl missing_password, ?g)"
    using init_state_contract[where pw = None and X = stub_collaborators and s = ?g
        and corpus = "Some ''corpus.txt''"]
    by simp
  have 2: "init_state stub_collaborators ?g (Some ''Tr0ub4dor&3'') (Some [])
           = (Inl missing_corpus, ?g)"
    using init_state_contract[where pw = "Some ''Tr0ub4dor&3''" and X = stub_collaborators
        and s = ?g and corpus = "Some []"]
    by simp
  have "\<exists>digest a m2. sha512_hexdigest stub_collaborators ''Tr0ub4dor&3'' = Inr digest
          \<and> scenario_session = ?g\<lparr>password := Some digest, aeshelp := Some a, model := Some m2\<rparr>"
    using init_state_contract[where pw = "Some ''Tr0ub4dor&3''" and X = stub_collaborators
        and s = ?g and corpus = "Some ''corpus.txt''" and s' = scenario_session
        and p = "''Tr0ub4dor&3''" and p' = "''Tr0ub4dor&3''"] run
    by auto
  then obtain digest a m2
    where dg: "sha512_hexdigest stub_collaborators ''Tr0ub4dor&3'' = Inr digest"
      and ss: "scenario_session = ?g\<lparr>password := Some digest, aeshelp := Some a, model := Some m2\<rparr>"
    by blast
  have "password scenario_session = Some digest" by (subst ss) simp
  then have 3: "password scenario_session = Some ''9b71d224''" using dg h by simp
  have h': "sha512_hexdigest stub_collaborators ''hunter2'' = Inr ''9b71d224''"
    by (simp add: stub_collaborators_def)
  have 4: "init_state stub_collaborators ?g (Some ''hunter2'') (Some ''corpus.txt'')
           = (Inr (), scenario_session)"
    using init_state_contract[where X = stub_collaborators and s = ?g
        and corpus = "Some ''corpus.txt''" and p = "''hunter2''" and p' = "''Tr0ub4dor&3''"] h h' run
    by simp
  show ?thesis using 1 2 3 4 run h h' by simp
qed

subsection \<open>Helper facts: what a pass raises, and what it leaves behind\<close>

lemma crypt_items_failure:
  "fst (crypt_items meth h items f) = Inl e \<Longrightarrow>
     (h = None \<and> e = AttributeError) \<or> (\<exists>a x. h = Some a \<and> meth a x = Inl e)"
proof (induction meth h items f rule: crypt_items.induct)
  case (1 meth h f)
  then show ?case by simp
next
  case (2 meth h key val items f)
  show ?case
  proof (cases h)
    case None
    then show ?thesis using "2.prems" by simp
  next
    case (Some a)
    show ?thesis
    proof (cases "meth a (fst val)")
      case (Inl e0)
      then show ?thesis using "2.prems" Some by auto
    next
      case v0: (Inr v0)
      show ?thesis
      proof (cases "meth a (snd val)")
        case (Inl e1)
        then show ?thesis using "2.prems" Some v0 by auto
      next
        case v1: (Inr v1)
        have "fst (crypt_items meth h items (AList.update key (v0, v1) f)) = Inl e"
          using "2.prems" Some v0 v1 by simp
        then show ?thesis using "2.IH"[OF Some v0 v1] by simp
      qed
    qed
  qed
qed

lemma crypt_dicts_failure:
  "fst (crypt_dicts meth h ds) = Inl e \<Longrightarrow>
     (h = None \<and> e = AttributeError) \<or> (\<exists>a x. h = Some a \<and> meth a x = Inl e)"
proof (induction ds)
  case Nil
  then show ?case by simp
next
  case (Cons f fs)
  obtain r f' where one: "crypt_items meth h f f = (r, f')" by (cases "crypt_items meth h f f")
  show ?case
  proof (cases r)
    case (Inl e0)
    then have "fst (crypt_items meth h f f) = Inl e" using Cons.prems one by simp
    then show ?thesis by (rule crypt_items_failure)
  next
    case (Inr u)
    then have "fst (crypt_dicts meth h fs) = Inl e"
      using Cons.prems one by (simp split: prod.splits)
    then show ?thesis by (rule Cons.IH)
  qed
qed

lemma pass_failure:
  "fst (encrypt_fields s) = Inl e \<Longrightarrow>
     (aeshelp s = None \<and> e = AttributeError) \<or> (\<exists>a x. aeshelp s = Some a \<and> encrypt a x = Inl e)"
  "fst (decrypt_fields s) = Inl e \<Longrightarrow>
     (aeshelp s = None \<and> e = AttributeError) \<or> (\<exists>a x. aeshelp s = Some a \<and> decrypt a x = Inl e)"
proof -
  show "fst (encrypt_fields s) = Inl e \<Longrightarrow>
     (aeshelp s = None \<and> e = AttributeError) \<or> (\<exists>a x. aeshelp s = Some a \<and> encrypt a x = Inl e)"
    using crypt_dicts_failure[of encrypt "aeshelp s" "data s" e]
    by (auto simp: encrypt_fields_def split: prod.splits sum.splits)
  show "fst (decrypt_fields s) = Inl e \<Longrightarrow>
     (aeshelp s = None \<and> e = AttributeError) \<or> (\<exists>a x. aeshelp s = Some a \<and> decrypt a x = Inl e)"
    using crypt_dicts_failure[of decrypt "aeshelp s" "data s" e]
    by (auto simp: decrypt_fields_def split: prod.splits sum.splits)
qed



lemma field_names_transform: "field_names (transform_data g ds) = field_names ds"
  by (induction ds) (simp_all add: field_names_def transform_data_def o_def split_def)












subsection \<open>How errors reach the caller\<close>

text \<open>
  C3, as the code has it. The claim that every error of the core comes back as a typed
  failure of the domain, with no exit inside the core, fails: adding a field that exists
  calls \<^verbatim>\<open>exit(1)\<close> inside \<open>add_field\<close>, and what the caller receives is the
  \<^verbatim>\<open>SystemExit\<close> of that call.
\<close>

theorem duplicate_field_exit_counterexample:
  "add_field scenario_world ''email'' ''c@d.org'' ''hunter2''
     = (Inl (SystemExit ''field email already exists!'' 1), scenario_world)
   \<and> exit_called (SystemExit ''field email already exists!'' 1)"
  by (simp add: scenario_world_eq email_session_eq add_field_def check_field_existence_def
      already_exists_def GhostpassException_def exit_called_def)

text \<open>
  C3, amended. Every validation error of the core (\<open>init_state\<close> without a password or
  without a corpus, \<open>add_field\<close> of a name that exists, \<open>remove_field\<close>,
  \<open>overwrite_field\<close> and \<open>view_field\<close> of a name that does not) constructs a
  \<^verbatim>\<open>GhostpassException\<close>, whose constructor prints the message and calls \<^verbatim>\<open>exit(1)\<close>
  inside the core: what the caller receives is \<^verbatim>\<open>SystemExit\<close> with status 1 and not
  a typed failure of the domain, and the state is as it was before the call. A failure
  of the encryption or decryption pass is the exception that the cipher raised (or
  \<open>AttributeError\<close> on a session without a cipher helper), passed on to the caller.
\<close>

theorem validation_errors_call_exit:
  "(pw = None \<or> pw = Some [] \<longrightarrow>
      init_state X s pw corpus = (Inl (SystemExit ''master password is not optional'' 1), s))
   \<and> (pw = Some p \<and> p \<noteq> [] \<and> (corpus = None \<or> corpus = Some []) \<longrightarrow>
      init_state X s pw corpus = (Inl (SystemExit ''corpus path is not optional'' 1), s))
   \<and> (name \<in> set (field_names (data (self w))) \<longrightarrow>
      add_field w name username secret
      = (Inl (SystemExit (''field '' @ name @ '' already exists!'') 1), w))
   \<and> (name \<notin> set (field_names (data (self w))) \<longrightarrow>
      remove_field w name = (Inl (SystemExit (''field '' @ name @ '' doesn't exist!'') 1), w)
      \<and> overwrite_field w name username secret
        = (Inl (SystemExit (''field '' @ name @ '' doesn't exist!'') 1), w)
      \<and> view_field X (self w) name = Inl (SystemExit (''field '' @ name @ '' doesn't exist!'') 1))
   \<and> GhostpassException message = SystemExit message 1
   \<and> exit_called (GhostpassException message)
   \<and> (fst (encrypt_fields s) = Inl e \<longrightarrow>
      (aeshelp s = None \<and> e = AttributeError) \<or> (\<exists>a x. aeshelp s = Some a \<and> encrypt a x = Inl e))
   \<and> (fst (decrypt_fields s) = Inl e \<longrightarrow>
      (aeshelp s = None \<and> e = AttributeError) \<or> (\<exists>a x. aeshelp s = Some a \<and> decrypt a x = Inl e))"
proof -
  have i1: "pw = None \<or> pw = Some [] \<longrightarrow>
      init_state X s pw corpus = (Inl (SystemExit ''master password is not optional'' 1), s)"
    by (auto simp: init_state_def missing_password_def GhostpassException_def)
  have i2: "pw = Some p \<and> p \<noteq> [] \<and> (corpus = None \<or> corpus = Some []) \<longrightarrow>
      init_state X s pw corpus = (Inl (SystemExit ''corpus path is not optional'' 1), s)"
    by (auto simp: init_state_def missing_corpus_def GhostpassException_def)
  have a: "name \<in> set (field_names (data (self w))) \<longrightarrow>
      add_field w name username secret
      = (Inl (SystemExit (''field '' @ name @ '' already exists!'') 1), w)"
    by (simp add: add_field_def check_field_existence_iff already_exists_def GhostpassException_def)
  have n: "name \<notin> set (field_names (data (self w))) \<longrightarrow>
      remove_field w name = (Inl (SystemExit (''field '' @ name @ '' doesn't exist!'') 1), w)
      \<and> overwrite_field w name username secret
        = (Inl (SystemExit (''field '' @ name @ '' doesn't exist!'') 1), w)
      \<and> view_field X (self w) name = Inl (SystemExit (''field '' @ name @ '' doesn't exist!'') 1)"
    by (simp add: remove_field_def overwrite_field_def view_field_def check_field_existence_iff
        not_found_def GhostpassException_def)
  have t: "GhostpassException message = SystemExit message 1"
    "exit_called (GhostpassException message)"
    by (simp_all add: GhostpassException_def exit_called_def)
  have p1: "fst (encrypt_fields s) = Inl e \<longrightarrow>
      (aeshelp s = None \<and> e = AttributeError) \<or> (\<exists>a x. aeshelp s = Some a \<and> encrypt a x = Inl e)"
    using pass_failure(1)[of s e] by blast
  have p2: "fst (decrypt_fields s) = Inl e \<longrightarrow>
      (aeshelp s = None \<and> e = AttributeError) \<or> (\<exists>a x. aeshelp s = Some a \<and> decrypt a x = Inl e)"
    using pass_failure(2)[of s e] by blast
  show ?thesis using i1 i2 a n t p1 p2 by blast
qed

theorem validation_errors_call_exit_witness:
  "init_state stub_collaborators (Ghostpass ''AdaGrace42'') None (Some ''corpus.txt'')
     = (Inl (SystemExit ''master password is not optional'' 1), Ghostpass ''AdaGrace42'')
   \<and> init_state stub_collaborators (Ghostpass ''AdaGrace42'') (Some ''Tr0ub4dor&3'') None
     = (Inl (SystemExit ''corpus path is not optional'' 1), Ghostpass ''AdaGrace42'')
   \<and> add_field scenario_world ''email'' ''c@d.org'' ''hunter2''
     = (Inl (SystemExit ''field email already exists!'' 1), scenario_world)
   \<and> remove_field scenario_world ''bank''
     = (Inl (SystemExit ''field bank doesn't exist!'' 1), scenario_world)
   \<and> view_field stub_collaborators (self scenario_world) ''bank''
     = Inl (SystemExit ''field bank doesn't exist!'' 1)
   \<and> fst (decrypt_fields email_session) = Inl (Foreign ''bad ciphertext'')
   \<and> decrypt prefix_cipher ''a@b.com'' = Inl (Foreign ''bad ciphertext'')"
proof -
  let ?g = "Ghostpass ''AdaGrace42'' :: unit ghostpass"
  have names: "field_names (data (self scenario_world)) = [''email'']"
    by (simp add: scenario_world_eq email_session_eq field_names_def)
  have 1: "init_state stub_collaborators ?g None (Some ''corpus.txt'')
     = (Inl (SystemExit ''master password is not optional'' 1), ?g)"
    using validation_errors_call_exit[of None stub_collaborators ?g "Some ''corpus.txt''"]
    by simp
  have 2: "init_state stub_collaborators ?g (Some ''Tr0ub4dor&3'') None
     = (Inl (SystemExit ''corpus path is not optional'' 1), ?g)"
    using validation_errors_call_exit[of "Some ''Tr0ub4dor&3''" stub_collaborators ?g None
        "''Tr0ub4dor&3''"]
    by simp
  have 3: "add_field scenario_world ''email'' ''c@d.org'' ''hunter2''
     = (Inl (SystemExit ''field email already exists!'' 1), scenario_world)"
    using validation_errors_call_exit[of _ _ _ _ _ "''email''" scenario_world "''c@d.org''" "''hunter2''"]
    by (simp add: names)
  have 4: "remove_field scenario_world ''bank''
     = (Inl (SystemExit ''field bank doesn't exist!'' 1), scenario_world)
     \<and> view_field stub_collaborators (self scenario_world) ''bank''
     = Inl (SystemExit ''field bank doesn't exist!'' 1)"
    using validation_errors_call_exit[of _ stub_collaborators _ _ _ "''bank''" scenario_world]
    by (simp add: names)
  have 5: "fst (decrypt_fields email_session) = Inl (Foreign ''bad ciphertext'')"
    by (simp add: decrypt_fields_def email_session_eq prefix_cipher_def)
  have 6: "decrypt prefix_cipher ''a@b.com'' = Inl (Foreign ''bad ciphertext'')"
    by (simp add: prefix_cipher_def)
  show ?thesis using 1 2 3 4 5 6 by simp
qed

subsection \<open>The flag and the entries\<close>






subsection \<open>A second encryption pass\<close>

text \<open>
  C6, as the code has it. The claim that a second \<open>encrypt_fields\<close> is a no-op or an
  error fails: on the encrypted scenario session it returns normally and every stored
  ciphertext has been encrypted once more.
\<close>

theorem double_encryption_counterexample:
  "encrypted (self encrypted_world)
   \<and> fst (encrypt_fields (self encrypted_world)) = Inr ()
   \<and> data (self encrypted_world) = [[(''email'', (''#a@b.com'', ''#secret123''))]]
   \<and> data (snd (encrypt_fields (self encrypted_world)))
       = [[(''email'', (''##a@b.com'', ''##secret123''))]]
   \<and> snd (encrypt_fields (self encrypted_world)) \<noteq> self encrypted_world"
  by (simp add: encrypted_world_eq encrypt_fields_def prefix_cipher_def)


text \<open>
  C6, amended. \<open>encrypt_fields\<close> does not read the flag. On a session that is already
  encrypted, with a cipher that accepts the stored values (\<open>E\<close> is what it returns on
  them) and well-formed dictionaries, a second call returns normally, leaves the flag set
  and the names as they were, and replaces every stored value by its encryption: the
  cipher is applied a second time.
\<close>

theorem second_encrypt_pass:
  assumes "encrypted s"
    and "aeshelp s = Some a"
    and "\<And>x. x \<in> set (values_of (data s)) \<Longrightarrow> encrypt a x = Inr (E x)"
    and "wf_data (data s)"
  shows "encrypt_fields s = (Inr (), s\<lparr>data := transform_data E (data s)\<rparr>)
       \<and> values_of (data (snd (encrypt_fields s))) = map E (values_of (data s))
       \<and> field_names (data (snd (encrypt_fields s))) = field_names (data s)
       \<and> encrypted (snd (encrypt_fields s))"
proof -
  have enc: "crypt_dicts encrypt (Some a) (data s) = (Inr (), transform_data E (data s))"
  proof (rule crypt_dicts_succeeds[where g = E and meth = encrypt])
    show "wf_data (data s)" by (rule assms(4))
    show "encrypt a x = Inr (E x)" if "x \<in> set (values_of (data s))" for x
      by (rule assms(3)[OF that])
  qed
  have "s\<lparr>data := transform_data E (data s), encrypted := True\<rparr>
        = s\<lparr>data := transform_data E (data s)\<rparr>"
    using assms(1) by simp
  then have run: "encrypt_fields s = (Inr (), s\<lparr>data := transform_data E (data s)\<rparr>)"
    by (simp add: encrypt_fields_def assms(2) enc)
  show ?thesis
    using assms(1) by (simp add: run values_of_transform field_names_transform)
qed

theorem second_encrypt_pass_witness:
  "encrypted (self encrypted_world)
   \<and> aeshelp (self encrypted_world) = Some prefix_cipher
   \<and> (\<forall>x. encrypt prefix_cipher x = Inr (CHR ''#'' # x))
   \<and> wf_data (data (self encrypted_world))
   \<and> values_of (data (self encrypted_world)) = [''#a@b.com'', ''#secret123'']
   \<and> values_of (data (snd (encrypt_fields (self encrypted_world)))) = [''##a@b.com'', ''##secret123'']"
proof -
  have h1: "encrypted (self encrypted_world)" by (simp add: encrypted_world_eq)
  have h2: "aeshelp (self encrypted_world) = Some prefix_cipher" by (simp add: encrypted_world_eq)
  have h3: "encrypt prefix_cipher x = Inr (CHR ''#'' # x)" for x by (rule prefix_cipher_encrypt)
  have h4: "wf_data (data (self encrypted_world))"
    by (simp add: encrypted_world_eq wf_data_def wf_dict_def)
  have v: "values_of (data (self encrypted_world)) = [''#a@b.com'', ''#secret123'']"
    by (simp add: encrypted_world_eq)
  note again = second_encrypt_pass[of "self encrypted_world" prefix_cipher "(#) CHR ''#''",
      OF h1 h2 h3 h4]
  have "values_of (data (snd (encrypt_fields (self encrypted_world)))) = [''##a@b.com'', ''##secret123'']"
    using again[THEN conjunct2, THEN conjunct1] v by simp
  then show ?thesis using h1 h2 h3 h4 v by simp
qed


end
